theory Spec2Isabelle
  imports Main
begin

section \<open>Data model\<close>

text \<open>
  Identifiers are the strings the JavaScript passes around: Mongo ObjectIds printed with
  \<open>toString()\<close>, socket ids, room names. Instants (\<open>new Date()\<close>) are natural numbers
  handed in by the environment.
\<close>

type_synonym user_id = string
type_synonym socket_id = string
type_synonym room_id = string
type_synonym msg_id = string
type_synonym time = nat

text \<open>
  The document of \<open>models/User.js\<close>, one field per schema path. The schema option
  \<open>timestamps: true\<close> adds \<open>createdAt\<close> and \<open>updatedAt\<close>.
\<close>

record user =
  username :: string
  email :: string
  password :: string
  firstName :: string
  lastName :: string
  avatar :: "string option"
  isOnline :: bool
  lastSeen :: time
  friends :: "user_id list"
  friendRequests_sent :: "user_id list"
  friendRequests_received :: "user_id list"
  blockedUsers :: "user_id list"
  isActive :: bool
  emailVerified :: bool
  verificationToken :: "string option"
  resetPasswordToken :: "string option"
  resetPasswordExpires :: "time option"
  createdAt :: time
  updatedAt :: time

text \<open>
  The message document as the handlers build it (\<open>new Message({...})\<close>). The schema file
  \<open>models/Message.js\<close> is not among the sources, so only the fields the handlers pass
  are kept; what the schema validates is an input of the environment (\<open>save_ok\<close> below).
  The REST controller passes a timestamp, the socket handler does not.
\<close>

record message =
  sender :: user_id
  recipient :: string
  content :: string
  messageType :: string
  timestamp :: "time option"

text \<open>The payload of the socket event \<open>send-message\<close> and of \<open>typing\<close>.\<close>

record send_data =
  d_recipient :: string
  d_content :: string
  d_messageType :: "string option"

record typing_data =
  t_recipient :: string
  t_isTyping :: bool

text \<open>
  What \<open>populate(path, 'username email')\<close> puts in place of a user reference: the
  selected fields and the id, or null when no such user exists.
\<close>

record user_summary =
  s_id :: user_id
  s_username :: string
  s_email :: string

record populated =
  p_id :: msg_id
  p_sender :: "user_summary option"
  p_recipient :: "user_summary option"
  p_content :: string
  p_messageType :: string

text \<open>Events the server emits to a client, with their payloads.\<close>

datatype event =
    JoinedRoom room_id
  | LeftRoom room_id
  | ReceiveMessage "populated option"
  | MessageSent "populated option"
  | MessageError string
  | UserTyping user_id bool
  | UserOffline user_id
  | UserStatus user_id string "time option"

type_synonym emission = "socket_id \<times> event"

text \<open>
  A connected socket: its id, the \<open>userId\<close> that \<open>socketAuth\<close> attached, and the rooms
  it has joined. \<open>socket.user\<close> is attached too, but no handler reads it.
\<close>

record socket =
  sid :: socket_id
  userId :: user_id
  rooms :: "room_id set"

text \<open>
  The server's state: the sockets of the namespace (in the order broadcasts visit them),
  the user collection and the message collection.
\<close>

record state =
  sockets :: "socket list"
  users :: "user_id \<rightharpoonup> user"
  messages :: "msg_id \<rightharpoonup> message"

text \<open>
  What the environment decides during one handler run: the instant \<open>new Date()\<close> returns
  (and the one a second call returns), the instant Mongoose reads from the clock by
  itself when it stamps \<open>updatedAt\<close>, the ObjectId of a new message, and whether
  \<open>message.save()\<close>, the re-read with \<open>populate\<close>, \<open>User.findByIdAndUpdate\<close> and
  \<open>User.findById\<close> resolve or reject.
\<close>

record env =
  now :: time
  now_again :: time
  mongoose_now :: time
  new_id :: msg_id
  save_ok :: bool
  find_ok :: bool
  update_ok :: bool
  user_find_ok :: bool

section \<open>Socket.IO primitives\<close>

text \<open>
  \<open>socket.emit\<close> reaches the socket itself. \<open>socket.to(room).emit\<close> and
  \<open>socket.broadcast.emit\<close> go through a broadcast operator whose except-set is the room
  named by the emitting socket's id: the first reaches the members of \<open>room\<close> that are not
  members of that room, the second every connected socket that is not. A socket is in the
  room of its own id from the start, which is how the sender is left out, but rooms are
  joined and left by name, so this is a matter of membership, not of identity. A room
  without members gets nothing.
\<close>

definition emit :: "socket \<Rightarrow> event \<Rightarrow> emission list" where
  "emit s ev = [(sid s, ev)]"

definition to_room :: "state \<Rightarrow> socket \<Rightarrow> room_id \<Rightarrow> event \<Rightarrow> emission list" where
  "to_room st s room ev =
     map (\<lambda>x. (sid x, ev)) (filter (\<lambda>x. room \<in> rooms x \<and> sid s \<notin> rooms x) (sockets st))"

definition broadcast :: "state \<Rightarrow> socket \<Rightarrow> event \<Rightarrow> emission list" where
  "broadcast st s ev =
     map (\<lambda>x. (sid x, ev)) (filter (\<lambda>x. sid s \<notin> rooms x) (sockets st))"

definition join :: "state \<Rightarrow> socket \<Rightarrow> room_id \<Rightarrow> state" where
  "join st s room =
     st\<lparr>sockets := map (\<lambda>x. if sid x = sid s then x\<lparr>rooms := insert room (rooms x)\<rparr> else x)
                       (sockets st)\<rparr>"

definition leave :: "state \<Rightarrow> socket \<Rightarrow> room_id \<Rightarrow> state" where
  "leave st s room =
     st\<lparr>sockets := map (\<lambda>x. if sid x = sid s then x\<lparr>rooms := rooms x - {room}\<rparr> else x)
                       (sockets st)\<rparr>"

section \<open>Store operations\<close>

text \<open>
  \<open>User.findByIdAndUpdate(id, fields)\<close>: no document, no change (there is no upsert);
  otherwise the fields are set and, by the schema's timestamps option, \<open>updatedAt\<close> too,
  to the instant \<open>t\<close> that Mongoose reads from the clock during the call (callers pass
  \<open>mongoose_now\<close>, not the instant they computed for \<open>lastSeen\<close>).
\<close>

definition findByIdAndUpdate ::
  "(user_id \<rightharpoonup> user) \<Rightarrow> user_id \<Rightarrow> (user \<Rightarrow> user) \<Rightarrow> time \<Rightarrow> (user_id \<rightharpoonup> user)" where
  "findByIdAndUpdate us uid upd t =
     (case us uid of None \<Rightarrow> us | Some u \<Rightarrow> us(uid \<mapsto> (upd u)\<lparr>updatedAt := t\<rparr>))"

text \<open>
  \<open>message.save()\<close>: rejects when the environment says so (validation, connection) or
  when the id is taken (duplicate key); otherwise the document is inserted.
\<close>

definition save :: "(msg_id \<rightharpoonup> message) \<Rightarrow> env \<Rightarrow> message \<Rightarrow> (msg_id \<rightharpoonup> message) option" where
  "save ms e doc =
     (if save_ok e \<and> ms (new_id e) = None then Some (ms(new_id e \<mapsto> doc)) else None)"

definition summary :: "(user_id \<rightharpoonup> user) \<Rightarrow> string \<Rightarrow> user_summary option" where
  "summary us uid =
     (case us uid of None \<Rightarrow> None
      | Some u \<Rightarrow> Some \<lparr>s_id = uid, s_username = username u, s_email = email u\<rparr>)"

text \<open>\<open>Message.findById(id).populate('sender', ...).populate('recipient', ...)\<close>.\<close>

definition findById_populate ::
  "(msg_id \<rightharpoonup> message) \<Rightarrow> (user_id \<rightharpoonup> user) \<Rightarrow> msg_id \<Rightarrow> populated option" where
  "findById_populate ms us mid =
     (case ms mid of None \<Rightarrow> None
      | Some m \<Rightarrow> Some \<lparr>p_id = mid, p_sender = summary us (sender m),
                        p_recipient = summary us (recipient m),
                        p_content = content m, p_messageType = messageType m\<rparr>)"

section \<open>Handshake authentication (utils/socketAuth.js)\<close>

record handshake =
  auth_token :: "string option"
  query_token :: "string option"
  authorization :: "string option"

text \<open>
  \<open>jwt.verify\<close> is a library call: it returns the decoded \<open>userId\<close> (possibly undefined)
  or throws an error with a name. \<open>User.findById\<close> may reject as well, with a name.
\<close>

record auth_env =
  jwt_verify :: "string \<Rightarrow> string + user_id option"
  findById_throws :: "string option"

fun truthy :: "string option \<Rightarrow> bool" where
  "truthy None = False"
| "truthy (Some s) = (s \<noteq> [])"

definition js_or :: "string option \<Rightarrow> string option \<Rightarrow> string option" where
  "js_or a b = (if truthy a then a else b)"

text \<open>\<open>s.replace(pat, rep)\<close> with a string pattern replaces the first occurrence.\<close>

fun replace_first :: "string \<Rightarrow> string \<Rightarrow> string \<Rightarrow> string" where
  "replace_first pat rep [] = (if pat = [] then rep else [])"
| "replace_first pat rep (c # cs) =
     (if take (length pat) (c # cs) = pat then rep @ drop (length pat) (c # cs)
      else c # replace_first pat rep cs)"

definition handshake_token :: "handshake \<Rightarrow> string option" where
  "handshake_token hs =
     js_or (auth_token hs)
       (js_or (query_token hs)
          (map_option (replace_first ''Bearer '' []) (authorization hs)))"

definition token_error :: "string \<Rightarrow> string" where
  "token_error name =
     (if name = ''TokenExpiredError'' then ''Token expired''
      else if name = ''JsonWebTokenError'' then ''Invalid token''
      else ''Token verification failed'')"

text \<open>
  The middleware: \<open>Inl reason\<close> is \<open>next(new Error(reason))\<close>, \<open>Inr\<close> is \<open>next()\<close> with the
  user attached. A rejection of \<open>User.findById\<close> lands in the inner catch, like a token
  error. With the handshake typed as above nothing reaches the outer catch.
\<close>

definition socketAuth ::
  "handshake \<Rightarrow> auth_env \<Rightarrow> (user_id \<rightharpoonup> user) \<Rightarrow> string + (user_id \<times> user)" where
  "socketAuth hs ae us =
     (let token = handshake_token hs in
      if \<not> truthy token then Inl ''Authentication required''
      else
        (case jwt_verify ae (the token) of
           Inl name \<Rightarrow> Inl (token_error name)
         | Inr decoded \<Rightarrow>
             (case findById_throws ae of
                Some name \<Rightarrow> Inl (token_error name)
              | None \<Rightarrow>
                  (case decoded of
                     None \<Rightarrow> Inl ''User not found''
                   | Some uid \<Rightarrow>
                       (case us uid of
                          None \<Rightarrow> Inl ''User not found''
                        | Some u \<Rightarrow>
                            if \<not> isActive u then Inl ''Account deactivated''
                            else Inr (uid, u))))))"

section \<open>The socket server (server.js)\<close>

text \<open>
  \<open>io.on('connection')\<close>: the socket is in the room of its own id (Socket.IO does that)
  and joins the room named by its user id.
\<close>

definition on_connection :: "state \<Rightarrow> socket \<Rightarrow> state" where
  "on_connection st s = join (st\<lparr>sockets := sockets st @ [s]\<rparr>) s (userId s)"

datatype connect_result = Accepted | Refused string

text \<open>
  \<open>io.use(socketAuth)\<close>: a connection whose middleware calls \<open>next\<close> with an error is
  refused with that error and the connection handler does not run for it.
\<close>

definition connect :: "state \<Rightarrow> socket_id \<Rightarrow> handshake \<Rightarrow> auth_env \<Rightarrow> state \<times> connect_result" where
  "connect st i hs ae =
     (case socketAuth hs ae (users st) of
        Inl reason \<Rightarrow> (st, Refused reason)
      | Inr (uid, u) \<Rightarrow> (on_connection st \<lparr>sid = i, userId = uid, rooms = {i}\<rparr>, Accepted))"

definition on_join_room :: "state \<Rightarrow> socket \<Rightarrow> room_id \<Rightarrow> state \<times> emission list" where
  "on_join_room st s roomId = (join st s roomId, emit s (JoinedRoom roomId))"

definition on_leave_room :: "state \<Rightarrow> socket \<Rightarrow> room_id \<Rightarrow> state \<times> emission list" where
  "on_leave_room st s roomId = (leave st s roomId, emit s (LeftRoom roomId))"

definition new_message :: "socket \<Rightarrow> send_data \<Rightarrow> message" where
  "new_message s d =
     \<lparr>sender = userId s, recipient = d_recipient d, content = d_content d,
      messageType = (if truthy (d_messageType d) then the (d_messageType d) else ''text''),
      timestamp = None\<rparr>"

definition send_failed :: "socket \<Rightarrow> emission list" where
  "send_failed s = emit s (MessageError ''Failed to send message'')"

text \<open>
  \<open>socket.on('send-message')\<close>. Each await of the try block may reject; the catch then
  emits \<open>message-error\<close> after whatever was emitted before.
\<close>

definition on_send_message :: "state \<Rightarrow> socket \<Rightarrow> send_data \<Rightarrow> env \<Rightarrow> state \<times> emission list" where
  "on_send_message st s d e =
     (case save (messages st) e (new_message s d) of
        None \<Rightarrow> (st, send_failed s)
      | Some ms \<Rightarrow>
          (let st1 = st\<lparr>messages := ms\<rparr> in
           if \<not> find_ok e then (st1, send_failed s)
           else
             (let populatedMessage = findById_populate ms (users st1) (new_id e);
                  out = to_room st1 s (d_recipient d) (ReceiveMessage populatedMessage)
                        @ emit s (MessageSent populatedMessage)
              in if \<not> update_ok e then (st1, out @ send_failed s)
                 else (st1\<lparr>users := findByIdAndUpdate (users st1) (userId s)
                                        (\<lambda>u. u\<lparr>lastSeen := now e\<rparr>) (mongoose_now e)\<rparr>,
                       out))))"

text \<open>
  The listener of \<open>send-message\<close> as a client reaches it. The payload may be missing;
  then \<open>data.recipient\<close> throws a TypeError inside the try block and the catch answers
  \<open>message-error\<close>.
\<close>

definition send_message_event ::
  "state \<Rightarrow> socket \<Rightarrow> send_data option \<Rightarrow> env \<Rightarrow> state \<times> emission list" where
  "send_message_event st s data e =
     (case data of None \<Rightarrow> (st, send_failed s) | Some d \<Rightarrow> on_send_message st s d e)"

text \<open>
  \<open>socket.on('typing')\<close>. There is no try block here: without a payload
  \<open>data.recipient\<close> throws a TypeError that nothing catches.
\<close>

datatype js_error = TypeError

definition on_typing ::
  "state \<Rightarrow> socket \<Rightarrow> typing_data option \<Rightarrow> js_error + state \<times> emission list" where
  "on_typing st s data =
     (case data of
        None \<Rightarrow> Inl TypeError
      | Some t \<Rightarrow>
          Inr (st, to_room st s (t_recipient t) (UserTyping (userId s) (t_isTyping t))))"

text \<open>
  \<open>socket.on('disconnect')\<close>. Socket.IO has removed the socket from the namespace and
  from its rooms when the handler runs. A rejected update is logged and nothing is
  broadcast.
\<close>

definition on_disconnect :: "state \<Rightarrow> socket \<Rightarrow> env \<Rightarrow> state \<times> emission list" where
  "on_disconnect st s e =
     (let st1 = st\<lparr>sockets := filter (\<lambda>x. sid x \<noteq> sid s) (sockets st)\<rparr> in
      if \<not> update_ok e then (st1, [])
      else (st1\<lparr>users := findByIdAndUpdate (users st1) (userId s)
                             (\<lambda>u. u\<lparr>lastSeen := now e, isOnline := False\<rparr>)
                             (mongoose_now e)\<rparr>,
            broadcast st1 s (UserOffline (userId s))))"

text \<open>
  Events of a client; \<open>send-message\<close> and \<open>typing\<close> may come without a payload.
  Handlers are registered inside the connection handler, so an event is handled only for
  a socket that is connected: anything else does nothing. An exception that no handler
  catches ends the Node process: every connection is gone and nothing more is emitted,
  while the collections, which live in MongoDB, stay as they are.
\<close>

datatype client_event =
    JoinRoom room_id
  | LeaveRoom room_id
  | SendMessage "send_data option"
  | Typing "typing_data option"
  | Disconnect

definition handle :: "state \<Rightarrow> socket_id \<Rightarrow> client_event \<Rightarrow> env \<Rightarrow> state \<times> emission list" where
  "handle st i ev e =
     (case find (\<lambda>x. sid x = i) (sockets st) of
        None \<Rightarrow> (st, [])
      | Some s \<Rightarrow>
          (case ev of
             JoinRoom r \<Rightarrow> on_join_room st s r
           | LeaveRoom r \<Rightarrow> on_leave_room st s r
           | SendMessage data \<Rightarrow> send_message_event st s data e
           | Typing data \<Rightarrow>
               (case on_typing st s data of
                  Inl err \<Rightarrow> (st\<lparr>sockets := []\<rparr>, [])
                | Inr r \<Rightarrow> r)
           | Disconnect \<Rightarrow> on_disconnect st s e))"

text \<open>
  A run of the server: connection attempts and client events, one after the other.
\<close>

datatype input =
    Connect socket_id handshake auth_env
  | Client socket_id client_event env

definition step :: "state \<Rightarrow> input \<Rightarrow> state \<times> emission list" where
  "step st inp =
     (case inp of
        Connect i hs ae \<Rightarrow> (fst (connect st i hs ae), [])
      | Client i ev e \<Rightarrow> handle st i ev e)"

fun run :: "state \<Rightarrow> input list \<Rightarrow> state" where
  "run st [] = st"
| "run st (inp # ins) = run (fst (step st inp)) ins"

fun connects :: "socket_id \<Rightarrow> input \<Rightarrow> bool" where
  "connects i (Connect j hs ae) = (i = j)"
| "connects i (Client j ev e) = False"

section \<open>Helpers of utils/socketAuth.js (socketUtils)\<close>

text \<open>
  These take a socket whose \<open>userId\<close> may be unset; \<open>if (socket.userId)\<close> is the
  truthiness of the string.
\<close>

definition joinUserRoom :: "state \<Rightarrow> socket \<Rightarrow> state" where
  "joinUserRoom st s = (if userId s \<noteq> [] then join st s (''user:'' @ userId s) else st)"

definition leaveUserRoom :: "state \<Rightarrow> socket \<Rightarrow> state" where
  "leaveUserRoom st s = (if userId s \<noteq> [] then leave st s (''user:'' @ userId s) else st)"

definition handleOnlineStatus :: "state \<Rightarrow> socket \<Rightarrow> env \<Rightarrow> state \<times> emission list" where
  "handleOnlineStatus st s e =
     (if userId s \<noteq> [] then
        (if \<not> update_ok e then (st, [])
         else
           (let st1 = st\<lparr>users := findByIdAndUpdate (users st) (userId s)
                                     (\<lambda>u. u\<lparr>isOnline := True, lastSeen := now e\<rparr>)
                                     (mongoose_now e)\<rparr>;
                st2 = joinUserRoom st1 s
            in (st2, broadcast st2 s (UserStatus (userId s) ''online'' None))))
      else (st, []))"

definition handleDisconnection :: "state \<Rightarrow> socket \<Rightarrow> env \<Rightarrow> state \<times> emission list" where
  "handleDisconnection st s e =
     (if userId s \<noteq> [] then
        (if \<not> update_ok e then (st, [])
         else
           (let st1 = st\<lparr>users := findByIdAndUpdate (users st) (userId s)
                                     (\<lambda>u. u\<lparr>lastSeen := now e, isOnline := False\<rparr>)
                                     (mongoose_now e)\<rparr>;
                out = broadcast st1 s (UserStatus (userId s) ''offline'' (Some (now_again e)))
            in (leaveUserRoom st1 s, out)))
      else (st, []))"

section \<open>The REST controller (messageController.sendMessage)\<close>

datatype response = Json nat string "msg_id option"

text \<open>
  The sibling of the socket handler: it looks the recipient up first and answers 404
  without saving when there is none. Any rejected await is answered with 500. Of the
  201 body only the message id is kept.
\<close>

definition sendMessage ::
  "state \<Rightarrow> user_id \<Rightarrow> send_data \<Rightarrow> env \<Rightarrow> state \<times> response" where
  "sendMessage st senderId body e =
     (if \<not> user_find_ok e then (st, Json 500 ''Server error sending message'' None)
      else
        (case users st (d_recipient body) of
           None \<Rightarrow> (st, Json 404 ''Recipient not found'' None)
         | Some r \<Rightarrow>
             (case save (messages st) e
                     \<lparr>sender = senderId, recipient = d_recipient body, content = d_content body,
                      messageType = (if truthy (d_messageType body) then the (d_messageType body)
                                     else ''text''),
                      timestamp = Some (now e)\<rparr> of
                None \<Rightarrow> (st, Json 500 ''Server error sending message'' None)
              | Some ms \<Rightarrow>
                  (if \<not> find_ok e
                   then (st\<lparr>messages := ms\<rparr>, Json 500 ''Server error sending message'' None)
                   else (st\<lparr>messages := ms\<rparr>,
                         Json 201 ''Message sent successfully'' (Some (new_id e)))))))"

section \<open>Derived notions\<close>

text \<open>The number of open connections of a user: the sockets carrying that user id.\<close>

definition conn_count :: "state \<Rightarrow> user_id \<Rightarrow> nat" where
  "conn_count st uid = length (filter (\<lambda>x. userId x = uid) (sockets st))"

definition online :: "state \<Rightarrow> user_id \<Rightarrow> bool option" where
  "online st uid = map_option isOnline (users st uid)"

text \<open>The events a socket receives out of a list of emissions.\<close>

definition received :: "emission list \<Rightarrow> socket_id \<Rightarrow> event list" where
  "received out i = map snd (filter (\<lambda>x. fst x = i) out)"

fun is_receive_message :: "event \<Rightarrow> bool" where
  "is_receive_message (ReceiveMessage _) = True"
| "is_receive_message _ = False"

fun is_message_sent :: "event \<Rightarrow> bool" where
  "is_message_sent (MessageSent _) = True"
| "is_message_sent _ = False"

fun is_message_error :: "event \<Rightarrow> bool" where
  "is_message_error (MessageError _) = True"
| "is_message_error _ = False"

section \<open>An example configuration\<close>

text \<open>
  Three accounts, one of them deactivated, and four open connections: one of the first
  user, two of the second, one of a third. Used to run the handlers on concrete input.
\<close>

definition uidA :: user_id where "uidA = ''64b7f0a1c2d3e4f5a6b7c8d1''"
definition uidB :: user_id where "uidB = ''64b7f0a1c2d3e4f5a6b7c8d2''"
definition uidC :: user_id where "uidC = ''64b7f0a1c2d3e4f5a6b7c8d3''"
definition uidD :: user_id where "uidD = ''64b7f0a1c2d3e4f5a6b7c8d4''"
definition uidZ :: user_id where "uidZ = ''64b7f0a1c2d3e4f5a6b7c8df''"

definition account :: "string \<Rightarrow> bool \<Rightarrow> bool \<Rightarrow> user" where
  "account name on active =
     \<lparr>username = name, email = name @ ''@example.com'', password = ''$2a$12$hash'',
      firstName = name, lastName = ''Doe'', avatar = None, isOnline = on, lastSeen = 10,
      friends = [], friendRequests_sent = [], friendRequests_received = [],
      blockedUsers = [], isActive = active, emailVerified = False,
      verificationToken = None, resetPasswordToken = None, resetPasswordExpires = None,
      createdAt = 1, updatedAt = 10\<rparr>"

definition ex_users :: "user_id \<rightharpoonup> user" where
  "ex_users =
     [uidA \<mapsto> account ''alice'' True True, uidB \<mapsto> account ''bob'' True True,
      uidC \<mapsto> account ''carol'' False True, uidD \<mapsto> account ''dave'' False False]"

definition sock :: "socket_id \<Rightarrow> user_id \<Rightarrow> socket" where
  "sock i uid = \<lparr>sid = i, userId = uid, rooms = {i, uid}\<rparr>"

definition ex_state :: state where
  "ex_state =
     \<lparr>sockets = [sock ''a1'' uidA, sock ''b1'' uidB, sock ''b2'' uidB, sock ''c1'' uidC],
      users = ex_users, messages = Map.empty\<rparr>"

definition ex_env :: env where
  "ex_env = \<lparr>now = 100, now_again = 101, mongoose_now = 102, new_id = ''m1'',
             save_ok = True, find_ok = True, update_ok = True, user_find_ok = True\<rparr>"

definition ex_verify :: "string \<Rightarrow> string + user_id option" where
  "ex_verify token =
     (if token = ''tokA'' then Inr (Some uidA)
      else if token = ''tokD'' then Inr (Some uidD)
      else if token = ''tokZ'' then Inr (Some uidZ)
      else if token = ''old'' then Inl ''TokenExpiredError''
      else Inl ''JsonWebTokenError'')"

definition ex_auth :: auth_env where
  "ex_auth = \<lparr>jwt_verify = ex_verify, findById_throws = None\<rparr>"

definition no_token :: handshake where
  "no_token = \<lparr>auth_token = None, query_token = None, authorization = None\<rparr>"

definition bearer :: "string \<Rightarrow> handshake" where
  "bearer token =
     \<lparr>auth_token = None, query_token = None, authorization = Some (''Bearer '' @ token)\<rparr>"

definition hi_to :: "string \<Rightarrow> send_data" where
  "hi_to r = \<lparr>d_recipient = r, d_content = ''hi'', d_messageType = Some ''text''\<rparr>"

definition typing_to :: "string \<Rightarrow> typing_data" where
  "typing_to r = \<lparr>t_recipient = r, t_isTyping = True\<rparr>"

section \<open>Basic facts\<close>

lemmas ex_defs =
  ex_state_def ex_users_def ex_env_def ex_auth_def ex_verify_def account_def sock_def
  hi_to_def no_token_def bearer_def uidA_def uidB_def uidC_def uidD_def uidZ_def

lemmas handler_defs =
  handle_def send_message_event_def on_send_message_def on_typing_def on_disconnect_def
  on_join_room_def
  on_leave_room_def typing_to_def new_message_def send_failed_def save_def findById_populate_def
  summary_def findByIdAndUpdate_def to_room_def broadcast_def emit_def join_def leave_def

lemma received_Nil: "received [] i = []"
  by (simp add: received_def)

lemma received_append: "received (xs @ ys) i = received xs i @ received ys i"
  by (simp add: received_def)

lemma received_emit: "received (emit s ev) i = (if sid s = i then [ev] else [])"
  by (simp add: received_def emit_def)

text \<open>Socket ids are unique among the connected sockets; then an id names one socket.\<close>

lemma sid_unique:
  "distinct (map sid xs) \<Longrightarrow> x \<in> set xs \<Longrightarrow> y \<in> set xs \<Longrightarrow> sid x = sid y \<Longrightarrow> x = y"
  by (auto simp: distinct_map dest: inj_onD)

text \<open>
  The sender is left out of its own multicast as long as it is in the room of its own id
  (or outside the target room); a member of the target room gets the event unless it is in
  the room of the sender's id.
\<close>

lemma received_to_room_self:
  assumes "distinct (map sid (sockets st))" "s \<in> set (sockets st)"
    and "sid s \<in> rooms s \<or> r \<notin> rooms s"
  shows "received (to_room st s r ev) (sid s) = []"
proof -
  have "\<not> (r \<in> rooms x \<and> sid s \<notin> rooms x)" if "x \<in> set (sockets st)" "sid x = sid s" for x
  proof -
    have "x = s" using sid_unique[OF assms(1) that(1) assms(2) that(2)] .
    then show ?thesis using assms(3) by auto
  qed
  then show ?thesis
    by (auto simp: received_def to_room_def filter_empty_conv)
qed

lemma received_to_room_member:
  "x \<in> set (sockets st) \<Longrightarrow> r \<in> rooms x \<Longrightarrow> sid s \<notin> rooms x \<Longrightarrow>
   ev \<in> set (received (to_room st s r ev) (sid x))"
  by (force simp: received_def to_room_def)

lemma received_to_room_unique:
  assumes "distinct (map sid (sockets st))" "x \<in> set (sockets st)"
  shows "received (to_room st s r ev) (sid x)
           = (if r \<in> rooms x \<and> sid s \<notin> rooms x then [ev] else [])"
proof -
  have "filter (\<lambda>y. sid y = sid x) xs = [x]" if "distinct (map sid xs)" "x \<in> set xs" for xs
    using that
  proof (induction xs)
    case Nil
    then show ?case by simp
  next
    case (Cons y ys)
    show ?case
    proof (cases "y = x")
      case True
      have "sid y \<notin> sid ` set ys" using Cons.prems(1) by simp
      then have "\<forall>z \<in> set ys. sid z \<noteq> sid x" using True by (metis imageI)
      then show ?thesis using True by (simp add: filter_empty_conv)
    next
      case False
      then have "x \<in> set ys" using Cons.prems(2) by simp
      moreover have "sid y \<notin> sid ` set ys" using Cons.prems(1) by simp
      then have "sid y \<noteq> sid x" using calculation by (metis imageI)
      moreover have "distinct (map sid ys)" using Cons.prems(1) by simp
      ultimately show ?thesis using Cons.IH by simp
    qed
  qed
  then have f: "filter (\<lambda>y. sid y = sid x) (sockets st) = [x]" using assms by blast
  have "received (to_room st s r ev) (sid x)
          = map (\<lambda>y. ev) (filter (\<lambda>y. r \<in> rooms y \<and> sid s \<notin> rooms y)
                              (filter (\<lambda>y. sid y = sid x) (sockets st)))"
    by (simp add: received_def to_room_def filter_map comp_def conj_commute)
  then show ?thesis by (simp add: f)
qed

lemma to_room_empty:
  "\<forall>x\<in>set (sockets st). r \<notin> rooms x \<Longrightarrow> to_room st s r ev = []"
  by (simp add: to_room_def filter_empty_conv)

lemma to_room_messages: "to_room (st\<lparr>messages := ms\<rparr>) s r ev = to_room st s r ev"
  by (simp add: to_room_def)

lemma save_Some:
  "save_ok e \<Longrightarrow> ms (new_id e) = None \<Longrightarrow> save ms e doc = Some (ms(new_id e \<mapsto> doc))"
  by (simp add: save_def)

lemma save_None: "\<not> (save_ok e \<and> ms (new_id e) = None) \<Longrightarrow> save ms e doc = None"
  by (auto simp add: save_def)

lemma findById_populate_saved:
  "\<exists>pm. findById_populate (ms(mid \<mapsto> doc)) us mid = Some pm \<and> p_id pm = mid"
  by (simp add: findById_populate_def)


text \<open>A send whose save and re-read succeed: what is emitted and what is stored.\<close>

lemma on_send_message_ok:
  assumes "save_ok e" "messages st (new_id e) = None" "find_ok e"
  shows "snd (on_send_message st s d e) =
           to_room st s (d_recipient d)
             (ReceiveMessage (findById_populate ((messages st)(new_id e \<mapsto> new_message s d))
                                (users st) (new_id e)))
           @ emit s (MessageSent (findById_populate ((messages st)(new_id e \<mapsto> new_message s d))
                                (users st) (new_id e)))
           @ (if update_ok e then [] else send_failed s)"
    and "messages (fst (on_send_message st s d e)) = (messages st)(new_id e \<mapsto> new_message s d)"
    and "users (fst (on_send_message st s d e)) =
           (if update_ok e
            then findByIdAndUpdate (users st) (userId s) (\<lambda>u. u\<lparr>lastSeen := now e\<rparr>)
                   (mongoose_now e)
            else users st)"
    and "sockets (fst (on_send_message st s d e)) = sockets st"
  using assms by (simp_all add: on_send_message_def save_Some Let_def to_room_messages)

lemma on_send_message_save_failed:
  assumes "\<not> (save_ok e \<and> messages st (new_id e) = None)"
  shows "on_send_message st s d e = (st, send_failed s)"
  using assms by (simp add: on_send_message_def save_None)

lemma on_send_message_find_failed:
  assumes "save_ok e" "messages st (new_id e) = None" "\<not> find_ok e"
  shows "on_send_message st s d e =
           (st\<lparr>messages := (messages st)(new_id e \<mapsto> new_message s d)\<rparr>, send_failed s)"
  using assms by (simp add: on_send_message_def save_Some Let_def)

lemma received_send_failed:
  "received (send_failed s) i = (if sid s = i then [MessageError ''Failed to send message''] else [])"
  by (simp add: send_failed_def received_emit)

text \<open>Looking a socket up by its id.\<close>

lemma find_sid_Some:
  "find (\<lambda>x. sid x = i) xs = Some s \<Longrightarrow> s \<in> set xs \<and> sid s = i"
  by (induction xs) (auto split: if_splits)

lemma find_sid_None: "i \<notin> sid ` set xs \<Longrightarrow> find (\<lambda>x. sid x = i) xs = None"
  by (induction xs) auto

lemma find_sid_member:
  "s \<in> set xs \<Longrightarrow> \<exists>s'. find (\<lambda>x. sid x = sid s) xs = Some s'"
  by (induction xs) auto

lemma handle_unknown: "i \<notin> sid ` set (sockets st) \<Longrightarrow> handle st i ev e = (st, [])"
  by (simp add: handle_def find_sid_None)

text \<open>No handler adds a socket; only an accepted connection does, under its own id.\<close>

lemma map_sid_rooms_update:
  "map sid (map (\<lambda>x. if P x then x\<lparr>rooms := f x\<rparr> else x) xs) = map sid xs"
  by (induction xs) auto

lemma sids_join: "sid ` set (sockets (join st s r)) = sid ` set (sockets st)"
proof -
  have "map sid (sockets (join st s r)) = map sid (sockets st)"
    unfolding join_def using map_sid_rooms_update by simp
  then show ?thesis by (metis set_map)
qed

lemma sids_leave: "sid ` set (sockets (leave st s r)) = sid ` set (sockets st)"
proof -
  have "map sid (sockets (leave st s r)) = map sid (sockets st)"
    unfolding leave_def using map_sid_rooms_update by simp
  then show ?thesis by (metis set_map)
qed

lemma sockets_on_send_message: "sockets (fst (on_send_message st s d e)) = sockets st"
  by (simp add: on_send_message_def Let_def split: option.splits)

lemma sids_on_disconnect:
  "sid ` set (sockets (fst (on_disconnect st s e))) \<subseteq> sid ` set (sockets st)"
  by (auto simp: on_disconnect_def Let_def)

lemma sids_handle: "sid ` set (sockets (fst (handle st i ev e))) \<subseteq> sid ` set (sockets st)"
proof (cases "find (\<lambda>x. sid x = i) (sockets st)")
  case None
  then show ?thesis by (simp add: handle_def)
next
  case (Some s)
  show ?thesis
  proof (cases ev)
    case (JoinRoom r)
    then show ?thesis using Some by (simp add: handle_def on_join_room_def sids_join)
  next
    case (LeaveRoom r)
    then show ?thesis using Some by (simp add: handle_def on_leave_room_def sids_leave)
  next
    case (SendMessage d)
    then show ?thesis using Some
      by (cases d) (simp_all add: handle_def send_message_event_def sockets_on_send_message)
  next
    case (Typing t)
    then show ?thesis using Some by (cases t) (simp_all add: handle_def on_typing_def)
  next
    case Disconnect
    then show ?thesis using Some sids_on_disconnect by (simp add: handle_def)
  qed
qed

lemma sids_connect:
  "sid ` set (sockets (fst (connect st j hs ae))) \<subseteq> insert j (sid ` set (sockets st))"
  by (auto simp: connect_def on_connection_def join_def split: sum.splits)

lemma sids_step:
  "\<not> connects i inp \<Longrightarrow> i \<notin> sid ` set (sockets st) \<Longrightarrow>
   i \<notin> sid ` set (sockets (fst (step st inp)))"
proof (cases inp)
  case (Connect j hs ae)
  assume "\<not> connects i inp" "i \<notin> sid ` set (sockets st)"
  then show ?thesis using Connect sids_connect[of st j hs ae] by (auto simp: step_def)
next
  case (Client j ev e)
  assume "\<not> connects i inp" "i \<notin> sid ` set (sockets st)"
  then show ?thesis using Client sids_handle[of st j ev e] by (auto simp: step_def)
qed

lemma sids_run:
  "\<forall>inp\<in>set ins. \<not> connects i inp \<Longrightarrow> i \<notin> sid ` set (sockets st) \<Longrightarrow>
   i \<notin> sid ` set (sockets (run st ins))"
proof (induction ins arbitrary: st)
  case Nil
  then show ?case by simp
next
  case (Cons inp ins)
  have "i \<notin> sid ` set (sockets (fst (step st inp)))"
    using Cons.prems sids_step by simp
  then show ?case using Cons by simp
qed

text \<open>Every way the middleware refuses.\<close>

lemma token_error_cases:
  "token_error name \<in> {''Token expired'', ''Invalid token'', ''Token verification failed''}"
  by (simp add: token_error_def)

lemma socketAuth_refusal_reason:
  "socketAuth hs ae us = Inl reason \<Longrightarrow>
   reason \<in> {''Authentication required'', ''Token expired'', ''Invalid token'',
             ''Token verification failed'', ''User not found'', ''Account deactivated''}"
  using token_error_cases
  by (auto simp: socketAuth_def Let_def split: sum.splits option.splits if_splits)

lemma connect_refused:
  "socketAuth hs ae (users st) = Inl reason \<Longrightarrow> connect st i hs ae = (st, Refused reason)"
  by (simp add: connect_def)

text \<open>The REST controller does check the recipient.\<close>

lemma sendMessage_recipient_absent:
  "user_find_ok e \<Longrightarrow> users st (d_recipient body) = None \<Longrightarrow>
   sendMessage st senderId body e = (st, Json 404 ''Recipient not found'' None)"
  by (simp add: sendMessage_def)

section \<open>Delivery\<close>

text \<open>
  C5 as amended. Socket ids being unique, let a1 be a connected socket that is in the room
  of its own id, and let b1 and b2 be connected sockets in the room named by the
  recipient that are not in the room named by a1's id. When the save and the re-read
  succeed, the stored document is the one built from the payload, b1 and b2 each receive
  exactly one \<open>receive-message\<close> carrying the persisted message with the stored id, a1
  receives \<open>message-sent\<close> with the same message, and a1 receives no \<open>receive-message\<close>.
\<close>

theorem send_message_fanout:
  assumes "distinct (map sid (sockets st))" "a1 \<in> set (sockets st)" "sid a1 \<in> rooms a1"
    and "b1 \<in> set (sockets st)" "b2 \<in> set (sockets st)"
    and "d_recipient d \<in> rooms b1" "d_recipient d \<in> rooms b2"
    and "sid a1 \<notin> rooms b1" "sid a1 \<notin> rooms b2"
    and "save_ok e" "messages st (new_id e) = None" "find_ok e"
  shows "\<exists>pm. p_id pm = new_id e \<and> p_content pm = d_content d
           \<and> messages (fst (on_send_message st a1 d e)) (p_id pm)
               = Some \<lparr>sender = userId a1, recipient = d_recipient d, content = d_content d,
                       messageType = (if truthy (d_messageType d) then the (d_messageType d)
                                      else ''text''),
                       timestamp = None\<rparr>
           \<and> received (snd (on_send_message st a1 d e)) (sid b1) = [ReceiveMessage (Some pm)]
           \<and> received (snd (on_send_message st a1 d e)) (sid b2) = [ReceiveMessage (Some pm)]
           \<and> MessageSent (Some pm) \<in> set (received (snd (on_send_message st a1 d e)) (sid a1))
           \<and> \<not> (\<exists>ev \<in> set (received (snd (on_send_message st a1 d e)) (sid a1)).
                   is_receive_message ev)"
proof -
  let ?ms = "(messages st)(new_id e \<mapsto> new_message a1 d)"
  let ?out = "snd (on_send_message st a1 d e)"
  obtain pm where pm: "findById_populate ?ms (users st) (new_id e) = Some pm"
    and pid: "p_id pm = new_id e" and pc: "p_content pm = d_content d"
    by (simp add: findById_populate_def new_message_def)
  have out: "?out =
      to_room st a1 (d_recipient d) (ReceiveMessage (Some pm)) @ emit a1 (MessageSent (Some pm))
      @ (if update_ok e then [] else send_failed a1)"
    using on_send_message_ok(1)[OF assms(10-12)] pm by simp
  have 1: "messages (fst (on_send_message st a1 d e)) (p_id pm)
               = Some \<lparr>sender = userId a1, recipient = d_recipient d, content = d_content d,
                       messageType = (if truthy (d_messageType d) then the (d_messageType d)
                                      else ''text''),
                       timestamp = None\<rparr>"
    using on_send_message_ok(2)[OF assms(10-12)] pid by (simp add: new_message_def)
  have other: "sid b \<noteq> sid a1" if "b \<in> set (sockets st)" "sid a1 \<notin> rooms b" for b
    using sid_unique[OF assms(1) that(1) assms(2)] that(2) assms(3) by auto
  have rec: "received ?out (sid b) = [ReceiveMessage (Some pm)]"
    if "b \<in> set (sockets st)" "d_recipient d \<in> rooms b" "sid a1 \<notin> rooms b" for b
    using received_to_room_unique[OF assms(1) that(1)] that(2,3) other[OF that(1,3)]
    by (simp add: out received_append received_emit received_send_failed received_Nil)
  have 2: "received ?out (sid b1) = [ReceiveMessage (Some pm)]"
    using rec[OF assms(4,6,8)] .
  have 3: "received ?out (sid b2) = [ReceiveMessage (Some pm)]"
    using rec[OF assms(5,7,9)] .
  have self: "received (to_room st a1 (d_recipient d) (ReceiveMessage (Some pm))) (sid a1) = []"
    using received_to_room_self[OF assms(1,2)] assms(3) by simp
  have 4: "MessageSent (Some pm) \<in> set (received ?out (sid a1))"
    by (simp add: out received_append received_emit)
  have 5: "\<not> (\<exists>ev \<in> set (received ?out (sid a1)). is_receive_message ev)"
    by (simp add: out received_append received_emit self received_send_failed received_Nil)
  show ?thesis using pid pc 1 2 3 4 5 by blast
qed

theorem send_message_fanout_witness:
  "distinct (map sid (sockets ex_state)) \<and> sock ''a1'' uidA \<in> set (sockets ex_state)
   \<and> sid (sock ''a1'' uidA) \<in> rooms (sock ''a1'' uidA)
   \<and> sock ''b1'' uidB \<in> set (sockets ex_state) \<and> sock ''b2'' uidB \<in> set (sockets ex_state)
   \<and> d_recipient (hi_to uidB) \<in> rooms (sock ''b1'' uidB)
   \<and> d_recipient (hi_to uidB) \<in> rooms (sock ''b2'' uidB)
   \<and> sid (sock ''a1'' uidA) \<notin> rooms (sock ''b1'' uidB)
   \<and> sid (sock ''a1'' uidA) \<notin> rooms (sock ''b2'' uidB)
   \<and> save_ok ex_env \<and> messages ex_state (new_id ex_env) = None \<and> find_ok ex_env
   \<and> (\<exists>pm. p_id pm = new_id ex_env
        \<and> received (snd (on_send_message ex_state (sock ''a1'' uidA) (hi_to uidB) ex_env))
             (sid (sock ''b1'' uidB)) = [ReceiveMessage (Some pm)]
        \<and> received (snd (on_send_message ex_state (sock ''a1'' uidA) (hi_to uidB) ex_env))
             (sid (sock ''b2'' uidB)) = [ReceiveMessage (Some pm)]
        \<and> MessageSent (Some pm) \<in> set (received (snd (on_send_message ex_state
              (sock ''a1'' uidA) (hi_to uidB) ex_env)) (sid (sock ''a1'' uidA)))
        \<and> \<not> (\<exists>ev \<in> set (received (snd (on_send_message ex_state
              (sock ''a1'' uidA) (hi_to uidB) ex_env)) (sid (sock ''a1'' uidA))).
                is_receive_message ev))"
proof -
  have w1: "distinct (map sid (sockets ex_state))" by (simp add: ex_state_def sock_def)
  have w2: "sock ''a1'' uidA \<in> set (sockets ex_state)" by (simp add: ex_defs)
  have w3: "sid (sock ''a1'' uidA) \<in> rooms (sock ''a1'' uidA)" by (simp add: sock_def)
  have h1: "sock ''b1'' uidB \<in> set (sockets ex_state)" by (simp add: ex_defs)
  have h2: "sock ''b2'' uidB \<in> set (sockets ex_state)" by (simp add: ex_defs)
  have h3: "d_recipient (hi_to uidB) \<in> rooms (sock ''b1'' uidB)" by (simp add: ex_defs)
  have h4: "d_recipient (hi_to uidB) \<in> rooms (sock ''b2'' uidB)" by (simp add: ex_defs)
  have h5: "sid (sock ''a1'' uidA) \<notin> rooms (sock ''b1'' uidB)" by (simp add: ex_defs)
  have h6: "sid (sock ''a1'' uidA) \<notin> rooms (sock ''b2'' uidB)" by (simp add: ex_defs)
  have h7: "save_ok ex_env" by (simp add: ex_defs)
  have h8: "messages ex_state (new_id ex_env) = None" by (simp add: ex_defs)
  have h9: "find_ok ex_env" by (simp add: ex_defs)
  show ?thesis
    using w1 w2 w3 h1 h2 h3 h4 h5 h6 h7 h8 h9
      send_message_fanout[OF w1 w2 w3 h1 h2 h3 h4 h5 h6 h7 h8 h9]
    by blast
qed

text \<open>
  C5 as stated fails, since rooms are joined and left by any name. Once a1 has left the
  room of its own id and joined the room named by the second user's id, its own send to
  that user comes back to it as \<open>receive-message\<close>; and once b1 has joined the room named
  by a1's id, b1, still in its user's room, receives nothing of a1's send.
\<close>

theorem send_message_fanout_counterexample:
  "received (snd (handle (fst (handle (fst (handle ex_state ''a1'' (LeaveRoom ''a1'') ex_env))
                                 ''a1'' (JoinRoom uidB) ex_env))
                    ''a1'' (SendMessage (Some (hi_to uidB))) ex_env)) ''a1''
     = [ReceiveMessage (Some \<lparr>p_id = ''m1'',
            p_sender = Some \<lparr>s_id = uidA, s_username = ''alice'',
                              s_email = ''alice@example.com''\<rparr>,
            p_recipient = Some \<lparr>s_id = uidB, s_username = ''bob'',
                                 s_email = ''bob@example.com''\<rparr>,
            p_content = ''hi'', p_messageType = ''text''\<rparr>),
        MessageSent (Some \<lparr>p_id = ''m1'',
            p_sender = Some \<lparr>s_id = uidA, s_username = ''alice'',
                              s_email = ''alice@example.com''\<rparr>,
            p_recipient = Some \<lparr>s_id = uidB, s_username = ''bob'',
                                 s_email = ''bob@example.com''\<rparr>,
            p_content = ''hi'', p_messageType = ''text''\<rparr>)]
   \<and> received (snd (handle (fst (handle ex_state ''b1'' (JoinRoom ''a1'') ex_env))
                      ''a1'' (SendMessage (Some (hi_to uidB))) ex_env)) ''b1'' = []"
  by (simp add: handler_defs received_def ex_defs Let_def)




text \<open>
  A typing event that carries a payload changes nothing in the state, and, socket ids
  being unique, a connected socket receives the \<open>user-typing\<close> signal with the sender's
  user id and the flag, once, exactly when it is in the room named by the recipient and
  not in the room of the sender's id; with no member in that room nothing is emitted.
\<close>

lemma typing_with_payload:
  "\<exists>out. on_typing st s (Some t) = Inr (st, out)
     \<and> set (map fst out) \<subseteq> sid ` set (sockets st)
     \<and> (distinct (map sid (sockets st)) \<longrightarrow>
          (\<forall>x \<in> set (sockets st).
             received out (sid x)
               = (if t_recipient t \<in> rooms x \<and> sid s \<notin> rooms x
                  then [UserTyping (userId s) (t_isTyping t)] else [])))
     \<and> ((\<forall>x \<in> set (sockets st). t_recipient t \<notin> rooms x) \<longrightarrow> out = [])"
proof -
  let ?out = "to_room st s (t_recipient t) (UserTyping (userId s) (t_isTyping t))"
  have 1: "on_typing st s (Some t) = Inr (st, ?out)" by (simp add: on_typing_def)
  have 2: "set (map fst ?out) \<subseteq> sid ` set (sockets st)" by (auto simp: to_room_def)
  have 3: "distinct (map sid (sockets st)) \<longrightarrow>
          (\<forall>x \<in> set (sockets st).
             received ?out (sid x)
               = (if t_recipient t \<in> rooms x \<and> sid s \<notin> rooms x
                  then [UserTyping (userId s) (t_isTyping t)] else []))"
    using received_to_room_unique by blast
  have 4: "(\<forall>x \<in> set (sockets st). t_recipient t \<notin> rooms x) \<longrightarrow> ?out = []"
    using to_room_empty by blast
  show ?thesis using 1 2 3 4 by blast
qed

text \<open>
  C7. The claim holds for every typing event with a payload (the lemma above), but the
  listener has no try block: a \<open>typing\<close> event without a payload throws a TypeError that
  nothing catches, nothing is multicast and the process ends with all its connections.
  The \<open>send-message\<close> listener on the same input catches the error and reports
  \<open>message-error\<close> to the sender alone.
\<close>

theorem typing_without_payload:
  "on_typing ex_state (sock ''a1'' uidA) None = Inl TypeError
   \<and> handle ex_state ''a1'' (Typing None) ex_env = (ex_state\<lparr>sockets := []\<rparr>, [])
   \<and> handle ex_state ''a1'' (Typing (Some (typing_to uidB))) ex_env
       = (ex_state, [(''b1'', UserTyping uidA True), (''b2'', UserTyping uidA True)])
   \<and> handle ex_state ''a1'' (SendMessage None) ex_env
       = (ex_state, [(''a1'', MessageError ''Failed to send message'')])"
  by (simp add: handler_defs ex_state_def sock_def uidA_def uidB_def uidC_def)

text \<open>
  C9. \<open>join-room\<close> takes any room name. A connection c that joins the room named by
  another user's id (the recipient of a later message) is acknowledged and becomes a
  member of that room; a message then sent to that user from a connection a, with the
  save and the re-read succeeding, is delivered to c as \<open>receive-message\<close>, provided c is
  not in the room named by a's socket id (which is not the recipient's name either).
\<close>

theorem join_room_reaches_personal_room:
  assumes "c \<in> set (sockets st)" "a \<in> set (sockets st)" "sid a \<noteq> sid c"
    and "sid a \<notin> rooms c" "d_recipient d \<noteq> sid a"
    and "save_ok e" "messages st (new_id e) = None" "find_ok e"
  shows "snd (handle st (sid c) (JoinRoom (d_recipient d)) e0)
           = [(sid c, JoinedRoom (d_recipient d))]
         \<and> (\<exists>c' \<in> set (sockets (fst (handle st (sid c) (JoinRoom (d_recipient d)) e0))).
               sid c' = sid c \<and> d_recipient d \<in> rooms c')
         \<and> (\<exists>pm. p_id pm = new_id e
               \<and> ReceiveMessage (Some pm) \<in> set (received
                    (snd (handle (fst (handle st (sid c) (JoinRoom (d_recipient d)) e0)) (sid a)
                            (SendMessage (Some d)) e)) (sid c)))"
proof -
  let ?B = "d_recipient d"
  let ?st1 = "fst (handle st (sid c) (JoinRoom ?B) e0)"
  let ?c' = "c\<lparr>rooms := insert ?B (rooms c)\<rparr>"
  obtain c0 where c0: "find (\<lambda>x. sid x = sid c) (sockets st) = Some c0"
    using find_sid_member[OF assms(1)] by blast
  then have sc0: "sid c0 = sid c" using find_sid_Some by blast
  have j: "handle st (sid c) (JoinRoom ?B) e0 = (join st c0 ?B, [(sid c, JoinedRoom ?B)])"
    using c0 sc0 by (simp add: handle_def on_join_room_def emit_def)
  have st1: "?st1 = join st c0 ?B" using j by simp
  have c': "?c' \<in> set (sockets ?st1)"
    using assms(1) sc0 by (force simp: st1 join_def)
  have a': "a \<in> set (sockets ?st1)"
    using assms(2,3) sc0 by (force simp: st1 join_def)
  have ms: "messages ?st1 (new_id e) = None"
    using assms(7) by (simp add: st1 join_def)
  obtain a0 where a0: "find (\<lambda>x. sid x = sid a) (sockets ?st1) = Some a0"
    using find_sid_member[OF a'] by blast
  then have sa0: "sid a0 = sid a" using find_sid_Some by blast
  have h: "handle ?st1 (sid a) (SendMessage (Some d)) e = on_send_message ?st1 a0 d e"
    using a0 by (simp add: handle_def send_message_event_def)
  obtain pm where pm:
    "findById_populate ((messages ?st1)(new_id e \<mapsto> new_message a0 d)) (users ?st1) (new_id e)
       = Some pm" "p_id pm = new_id e"
    using findById_populate_saved by blast
  have out: "snd (on_send_message ?st1 a0 d e) =
      to_room ?st1 a0 ?B (ReceiveMessage (Some pm)) @ emit a0 (MessageSent (Some pm))
      @ (if update_ok e then [] else send_failed a0)"
    using on_send_message_ok(1)[OF assms(6) ms assms(8)] pm by simp
  have "sid a0 \<notin> rooms ?c'" using assms(4,5) sa0 by auto
  then have "ReceiveMessage (Some pm) \<in> set (received (to_room ?st1 a0 ?B (ReceiveMessage (Some pm)))
           (sid ?c'))"
    using received_to_room_member[OF c', of ?B a0] by simp
  then have r: "ReceiveMessage (Some pm) \<in> set (received
                    (snd (handle ?st1 (sid a) (SendMessage (Some d)) e)) (sid c))"
    by (simp add: h out received_append)
  have m: "\<exists>c' \<in> set (sockets ?st1). sid c' = sid c \<and> ?B \<in> rooms c'"
    using c' by (intro bexI[of _ ?c']) simp_all
  show ?thesis using j m r pm(2) by auto
qed

theorem join_room_reaches_personal_room_witness:
  "sock ''c1'' uidC \<in> set (sockets ex_state) \<and> sock ''a1'' uidA \<in> set (sockets ex_state)
   \<and> sid (sock ''a1'' uidA) \<noteq> sid (sock ''c1'' uidC)
   \<and> sid (sock ''a1'' uidA) \<notin> rooms (sock ''c1'' uidC)
   \<and> d_recipient (hi_to uidB) \<noteq> sid (sock ''a1'' uidA)
   \<and> save_ok ex_env \<and> messages ex_state (new_id ex_env) = None \<and> find_ok ex_env
   \<and> userId (sock ''c1'' uidC) \<noteq> d_recipient (hi_to uidB)
   \<and> snd (handle ex_state ''c1'' (JoinRoom uidB) ex_env) = [(''c1'', JoinedRoom uidB)]
   \<and> (\<exists>pm. p_id pm = ''m1''
         \<and> ReceiveMessage (Some pm) \<in> set (received
              (snd (handle (fst (handle ex_state ''c1'' (JoinRoom uidB) ex_env)) ''a1''
                      (SendMessage (Some (hi_to uidB))) ex_env)) ''c1''))"
proof -
  have h1: "sock ''c1'' uidC \<in> set (sockets ex_state)" by (simp add: ex_defs)
  have h2: "sock ''a1'' uidA \<in> set (sockets ex_state)" by (simp add: ex_defs)
  have h3: "sid (sock ''a1'' uidA) \<noteq> sid (sock ''c1'' uidC)" by (simp add: ex_defs)
  have g1: "sid (sock ''a1'' uidA) \<notin> rooms (sock ''c1'' uidC)" by (simp add: ex_defs)
  have g2: "d_recipient (hi_to uidB) \<noteq> sid (sock ''a1'' uidA)" by (simp add: ex_defs)
  have h4: "save_ok ex_env" by (simp add: ex_defs)
  have h5: "messages ex_state (new_id ex_env) = None" by (simp add: ex_defs)
  have h6: "find_ok ex_env" by (simp add: ex_defs)
  have h7: "userId (sock ''c1'' uidC) \<noteq> d_recipient (hi_to uidB)" by (simp add: ex_defs)
  have e1: "sid (sock ''c1'' uidC) = ''c1''" "sid (sock ''a1'' uidA) = ''a1''"
    "d_recipient (hi_to uidB) = uidB" "new_id ex_env = ''m1''"
    by (simp_all add: sock_def hi_to_def ex_env_def)
  show ?thesis
    using h1 h2 h3 g1 g2 h4 h5 h6 h7
      join_room_reaches_personal_room[OF h1 h2 h3 g1 g2 h4 h5 h6, of ex_env]
    unfolding e1 by blast
qed

text \<open>
  C10 as amended. When the save, the re-read and the user update of a socket
  \<open>send-message\<close> all succeed and the sender has a record, that record gets \<open>lastSeen\<close>
  set to the handler's current instant and \<open>updatedAt\<close> set to the instant Mongoose reads
  for its timestamp; no other field of it and no other user's record changes. The
  recipient's record is therefore unchanged exactly when the recipient is not the sender.
\<close>

theorem send_message_updates_lastSeen:
  assumes "save_ok e" "messages st (new_id e) = None" "find_ok e" "update_ok e"
    and "users st (userId s) = Some u"
  shows "users (fst (on_send_message st s d e))
           = (users st)(userId s \<mapsto> u\<lparr>lastSeen := now e, updatedAt := mongoose_now e\<rparr>)"
  using on_send_message_ok(3)[OF assms(1-3)] assms(4,5)
  by (simp add: findByIdAndUpdate_def)

theorem send_message_updates_lastSeen_witness:
  "save_ok ex_env \<and> messages ex_state (new_id ex_env) = None \<and> find_ok ex_env
   \<and> update_ok ex_env
   \<and> users ex_state (userId (sock ''a1'' uidA)) = Some (account ''alice'' True True)
   \<and> users (fst (on_send_message ex_state (sock ''a1'' uidA) (hi_to uidB) ex_env))
       = (users ex_state)(userId (sock ''a1'' uidA) \<mapsto>
            (account ''alice'' True True)\<lparr>lastSeen := 100, updatedAt := 102\<rparr>)"
proof -
  have h1: "save_ok ex_env" by (simp add: ex_defs)
  have h2: "messages ex_state (new_id ex_env) = None" by (simp add: ex_defs)
  have h3: "find_ok ex_env" by (simp add: ex_defs)
  have h4: "update_ok ex_env" by (simp add: ex_defs)
  have h5: "users ex_state (userId (sock ''a1'' uidA)) = Some (account ''alice'' True True)"
    by (simp add: ex_state_def ex_users_def sock_def uidA_def uidB_def uidC_def uidD_def)
  have v: "now ex_env = 100" "mongoose_now ex_env = 102" by (simp_all add: ex_env_def)
  show ?thesis
    using h1 h2 h3 h4 h5 send_message_updates_lastSeen[OF h1 h2 h3 h4 h5]
    unfolding v by blast
qed

text \<open>
  C10 as stated fails: a user who sends a message to their own id is the recipient, and
  the recipient's record changes (\<open>lastSeen\<close> from 10 to 100); \<open>updatedAt\<close> of the sender
  moves as well, to Mongoose's own reading of the clock.
\<close>

theorem send_message_frame_counterexample:
  "d_recipient (hi_to uidA) = userId (sock ''a1'' uidA)
   \<and> map_option lastSeen (users ex_state (d_recipient (hi_to uidA))) = Some 10
   \<and> map_option lastSeen
        (users (fst (handle ex_state ''a1'' (SendMessage (Some (hi_to uidA))) ex_env))
           (d_recipient (hi_to uidA))) = Some 100
   \<and> map_option updatedAt (users ex_state uidA) = Some 10
   \<and> map_option updatedAt
        (users (fst (handle ex_state ''a1'' (SendMessage (Some (hi_to uidA))) ex_env)) uidA)
       = Some 102"
  by (simp add: handler_defs ex_defs Let_def)

text \<open>
  C3. The socket handler never looks the recipient up. Sending to a well-formed id that
  no user has: the message is saved and the sender gets \<open>message-sent\<close> (with a null
  recipient), not \<open>message-error\<close>. The REST controller answers 404 on the same input and
  saves nothing.
\<close>

theorem send_message_absent_recipient:
  "users ex_state uidZ = None
   \<and> messages (fst (handle ex_state ''a1'' (SendMessage (Some (hi_to uidZ))) ex_env)) ''m1''
       = Some \<lparr>sender = uidA, recipient = uidZ, content = ''hi'', messageType = ''text'',
               timestamp = None\<rparr>
   \<and> received (snd (handle ex_state ''a1'' (SendMessage (Some (hi_to uidZ))) ex_env)) ''a1''
       = [MessageSent (Some \<lparr>p_id = ''m1'',
            p_sender = Some \<lparr>s_id = uidA, s_username = ''alice'',
                              s_email = ''alice@example.com''\<rparr>,
            p_recipient = None, p_content = ''hi'', p_messageType = ''text''\<rparr>)]
   \<and> sendMessage ex_state uidA (hi_to uidZ) ex_env
       = (ex_state, Json 404 ''Recipient not found'' None)"
  by (simp add: handler_defs received_def sendMessage_def ex_defs Let_def)

text \<open>
  C4 as amended. The sender receives \<open>message-sent\<close> exactly when the save and the
  re-read that follows it both succeed. When the save fails nothing is stored and the only
  emission is \<open>message-error\<close> to the sender. Every \<open>message-error\<close> of the handler goes
  to the sender and carries the fixed text.
\<close>

theorem send_message_confirmation:
  "((\<exists>ev \<in> set (received (snd (on_send_message st s d e)) (sid s)). is_message_sent ev)
      \<longleftrightarrow> (save_ok e \<and> messages st (new_id e) = None \<and> find_ok e))
   \<and> (\<not> (save_ok e \<and> messages st (new_id e) = None)
        \<longrightarrow> on_send_message st s d e = (st, [(sid s, MessageError ''Failed to send message'')]))
   \<and> (\<forall>em \<in> set (snd (on_send_message st s d e)).
         is_message_error (snd em)
           \<longrightarrow> em = (sid s, MessageError ''Failed to send message''))"
proof (cases "save_ok e \<and> messages st (new_id e) = None")
  case False
  have "on_send_message st s d e = (st, [(sid s, MessageError ''Failed to send message'')])"
    using on_send_message_save_failed[OF False] by (simp add: send_failed_def emit_def)
  then show ?thesis using False by (simp add: received_def)
next
  case True
  then have sv: "save_ok e" "messages st (new_id e) = None" by simp_all
  show ?thesis
  proof (cases "find_ok e")
    case False
    have "snd (on_send_message st s d e) = [(sid s, MessageError ''Failed to send message'')]"
      using on_send_message_find_failed[OF sv False] by (simp add: send_failed_def emit_def)
    then show ?thesis using True False by (simp add: received_def)
  next
    case f: True
    let ?pm = "findById_populate ((messages st)(new_id e \<mapsto> new_message s d)) (users st)
                 (new_id e)"
    have out: "snd (on_send_message st s d e) =
        to_room st s (d_recipient d) (ReceiveMessage ?pm) @ emit s (MessageSent ?pm)
        @ (if update_ok e then [] else send_failed s)"
      using on_send_message_ok(1)[OF sv f] by simp
    have 1: "\<exists>ev \<in> set (received (snd (on_send_message st s d e)) (sid s)). is_message_sent ev"
      by (simp add: out received_append received_emit)
    have 2: "\<forall>em \<in> set (snd (on_send_message st s d e)).
         is_message_error (snd em) \<longrightarrow> em = (sid s, MessageError ''Failed to send message'')"
      by (auto simp: out to_room_def emit_def send_failed_def)
    show ?thesis using True f 1 2 by simp
  qed
qed

theorem send_message_confirmation_witness:
  "(save_ok ex_env \<and> messages ex_state (new_id ex_env) = None \<and> find_ok ex_env)
   \<and> (\<exists>ev \<in> set (received (snd (on_send_message ex_state (sock ''a1'' uidA) (hi_to uidB) ex_env))
                    (sid (sock ''a1'' uidA))). is_message_sent ev)
   \<and> \<not> (save_ok (ex_env\<lparr>save_ok := False\<rparr>)
          \<and> messages ex_state (new_id (ex_env\<lparr>save_ok := False\<rparr>)) = None)
   \<and> on_send_message ex_state (sock ''a1'' uidA) (hi_to uidB) (ex_env\<lparr>save_ok := False\<rparr>)
       = (ex_state, [(sid (sock ''a1'' uidA), MessageError ''Failed to send message'')])"
proof -
  have h1: "save_ok ex_env \<and> messages ex_state (new_id ex_env) = None \<and> find_ok ex_env"
    by (simp add: ex_defs)
  have h2: "\<not> (save_ok (ex_env\<lparr>save_ok := False\<rparr>)
          \<and> messages ex_state (new_id (ex_env\<lparr>save_ok := False\<rparr>)) = None)"
    by simp
  show ?thesis
    using h1 h2
      send_message_confirmation[of ex_state "sock ''a1'' uidA" "hi_to uidB" ex_env]
      send_message_confirmation[of ex_state "sock ''a1'' uidA" "hi_to uidB"
        "ex_env\<lparr>save_ok := False\<rparr>"]
    by blast
qed

text \<open>
  C4 as stated fails: with the save succeeding and the re-read rejecting, the message is
  in the store but the sender receives \<open>message-error\<close> and no \<open>message-sent\<close>.
\<close>

theorem send_message_confirmation_counterexample:
  "messages (fst (handle ex_state ''a1'' (SendMessage (Some (hi_to uidB)))
                    (ex_env\<lparr>find_ok := False\<rparr>))) ''m1''
     = Some \<lparr>sender = uidA, recipient = uidB, content = ''hi'', messageType = ''text'',
             timestamp = None\<rparr>
   \<and> received (snd (handle ex_state ''a1'' (SendMessage (Some (hi_to uidB)))
                      (ex_env\<lparr>find_ok := False\<rparr>))) ''a1''
       = [MessageError ''Failed to send message'']"
  by (simp add: handler_defs received_def ex_defs Let_def)

section \<open>Presence\<close>

lemma on_disconnect_ok:
  assumes "update_ok e"
  shows "users (fst (on_disconnect st s e)) =
           findByIdAndUpdate (users st) (userId s)
             (\<lambda>u. u\<lparr>lastSeen := now e, isOnline := False\<rparr>) (mongoose_now e)"
    and "sockets (fst (on_disconnect st s e)) = filter (\<lambda>x. sid x \<noteq> sid s) (sockets st)"
    and "snd (on_disconnect st s e) =
           map (\<lambda>x. (sid x, UserOffline (userId s)))
             (filter (\<lambda>x. sid x \<noteq> sid s \<and> sid s \<notin> rooms x) (sockets st))"
  using assms by (simp_all add: on_disconnect_def Let_def broadcast_def conj_commute)

text \<open>
  C1 as amended. The code keeps no count of a user's connections, and the online flag
  does not follow their number. A disconnect whose update succeeds, for a user with a
  record, sets \<open>isOnline\<close> to false and \<open>lastSeen\<close> to the handler's instant (Mongoose
  stamps \<open>updatedAt\<close> with its own), whatever number of the user's connections stays
  open; accepting a connection leaves the user records as they are;
  \<open>handleOnlineStatus\<close> sets the flag to true.
\<close>

theorem disconnect_sets_offline:
  assumes "update_ok e" "users st (userId s) = Some u"
  shows "users (fst (on_disconnect st s e))
           = (users st)(userId s \<mapsto>
                u\<lparr>lastSeen := now e, isOnline := False, updatedAt := mongoose_now e\<rparr>)
         \<and> online (fst (on_disconnect st s e)) (userId s) = Some False
         \<and> conn_count (fst (on_disconnect st s e)) (userId s)
             = length (filter (\<lambda>x. userId x = userId s \<and> sid x \<noteq> sid s) (sockets st))
         \<and> users (on_connection st s) = users st
         \<and> (userId s \<noteq> [] \<longrightarrow> online (fst (handleOnlineStatus st s e)) (userId s) = Some True)"
proof -
  have 1: "users (fst (on_disconnect st s e))
           = (users st)(userId s \<mapsto>
                u\<lparr>lastSeen := now e, isOnline := False, updatedAt := mongoose_now e\<rparr>)"
    using on_disconnect_ok(1)[OF assms(1)] assms(2) by (simp add: findByIdAndUpdate_def)
  have 2: "online (fst (on_disconnect st s e)) (userId s) = Some False"
    by (simp add: online_def 1)
  have 3: "conn_count (fst (on_disconnect st s e)) (userId s)
             = length (filter (\<lambda>x. userId x = userId s \<and> sid x \<noteq> sid s) (sockets st))"
    using on_disconnect_ok(2)[OF assms(1)] by (simp add: conn_count_def conj_commute)
  have 4: "users (on_connection st s) = users st"
    by (simp add: on_connection_def join_def)
  have 5: "userId s \<noteq> [] \<longrightarrow> online (fst (handleOnlineStatus st s e)) (userId s) = Some True"
    using assms
    by (simp add: handleOnlineStatus_def joinUserRoom_def join_def Let_def online_def
        findByIdAndUpdate_def)
  show ?thesis using 1 2 3 4 5 by blast
qed

theorem disconnect_sets_offline_witness:
  "update_ok ex_env \<and> users ex_state (userId (sock ''b1'' uidB)) = Some (account ''bob'' True True)
   \<and> online (fst (on_disconnect ex_state (sock ''b1'' uidB) ex_env)) (userId (sock ''b1'' uidB))
       = Some False
   \<and> conn_count (fst (on_disconnect ex_state (sock ''b1'' uidB) ex_env)) (userId (sock ''b1'' uidB))
       = 1
   \<and> userId (sock ''b1'' uidB) \<noteq> []
   \<and> online (fst (handleOnlineStatus ex_state (sock ''b1'' uidB) ex_env)) (userId (sock ''b1'' uidB))
       = Some True"
proof -
  have h1: "update_ok ex_env" by (simp add: ex_defs)
  have h2: "users ex_state (userId (sock ''b1'' uidB)) = Some (account ''bob'' True True)"
    by (simp add: ex_state_def ex_users_def sock_def uidA_def uidB_def uidC_def uidD_def)
  have h3: "userId (sock ''b1'' uidB) \<noteq> []" by (simp add: ex_defs)
  have c: "length (filter (\<lambda>x. userId x = userId (sock ''b1'' uidB) \<and> sid x \<noteq> sid (sock ''b1'' uidB))
             (sockets ex_state)) = 1"
    by (simp add: ex_defs)
  show ?thesis
    using h1 h2 h3 c disconnect_sets_offline[OF h1 h2] by simp
qed

text \<open>
  C1 as stated fails: the second user has two open connections and is online; closing one
  leaves one open and the flag false.
\<close>

theorem presence_counterexample:
  "conn_count ex_state uidB = 2 \<and> online ex_state uidB = Some True
   \<and> conn_count (fst (handle ex_state ''b1'' Disconnect ex_env)) uidB = 1
   \<and> online (fst (handle ex_state ''b1'' Disconnect ex_env)) uidB = Some False"
  by (simp add: handler_defs online_def conn_count_def ex_defs Let_def)

text \<open>
  C2 as amended. Every disconnect whose update succeeds broadcasts \<open>user-offline\<close> with
  the user id, once to each remaining socket that is not in the room named by the closing
  socket's id, whether or not the user has other connections; so closing n connections of
  a user gives n broadcasts. A disconnect whose update is rejected broadcasts nothing.
  \<open>handleDisconnection\<close> broadcasts \<open>user:status\<close> offline in the same unconditional
  way, to the sockets outside the room named by the socket's id.
\<close>

theorem disconnect_broadcasts_offline:
  assumes "update_ok e"
  shows "snd (on_disconnect st s e)
           = map (\<lambda>x. (sid x, UserOffline (userId s)))
               (filter (\<lambda>x. sid x \<noteq> sid s \<and> sid s \<notin> rooms x) (sockets st))
         \<and> snd (on_disconnect st s (e\<lparr>update_ok := False\<rparr>)) = []
         \<and> (userId s \<noteq> [] \<longrightarrow> snd (handleDisconnection st s e)
              = map (\<lambda>x. (sid x, UserStatus (userId s) ''offline'' (Some (now_again e))))
                  (filter (\<lambda>x. sid s \<notin> rooms x) (sockets st)))"
  using assms on_disconnect_ok(3)[OF assms]
  by (simp add: on_disconnect_def handleDisconnection_def Let_def broadcast_def)

theorem disconnect_broadcasts_offline_witness:
  "update_ok ex_env
   \<and> snd (on_disconnect ex_state (sock ''b1'' uidB) ex_env)
       = [(''a1'', UserOffline uidB), (''b2'', UserOffline uidB), (''c1'', UserOffline uidB)]
   \<and> snd (on_disconnect ex_state (sock ''b1'' uidB) (ex_env\<lparr>update_ok := False\<rparr>)) = []
   \<and> userId (sock ''b1'' uidB) \<noteq> []
   \<and> snd (handleDisconnection ex_state (sock ''b1'' uidB) ex_env)
       = [(''a1'', UserStatus uidB ''offline'' (Some 101)),
          (''b2'', UserStatus uidB ''offline'' (Some 101)),
          (''c1'', UserStatus uidB ''offline'' (Some 101))]"
proof -
  have h1: "update_ok ex_env" by (simp add: ex_defs)
  have h2: "userId (sock ''b1'' uidB) \<noteq> []" by (simp add: ex_defs)
  have m1: "map (\<lambda>x. (sid x, UserOffline (userId (sock ''b1'' uidB))))
              (filter (\<lambda>x. sid x \<noteq> sid (sock ''b1'' uidB) \<and> sid (sock ''b1'' uidB) \<notin> rooms x)
                 (sockets ex_state))
            = [(''a1'', UserOffline uidB), (''b2'', UserOffline uidB), (''c1'', UserOffline uidB)]"
    by (simp add: ex_state_def sock_def uidA_def uidB_def uidC_def)
  have m2: "map (\<lambda>x. (sid x, UserStatus (userId (sock ''b1'' uidB)) ''offline''
                         (Some (now_again ex_env))))
              (filter (\<lambda>x. sid (sock ''b1'' uidB) \<notin> rooms x) (sockets ex_state))
            = [(''a1'', UserStatus uidB ''offline'' (Some 101)),
               (''b2'', UserStatus uidB ''offline'' (Some 101)),
               (''c1'', UserStatus uidB ''offline'' (Some 101))]"
    by (simp add: ex_state_def sock_def ex_env_def uidA_def uidB_def uidC_def)
  show ?thesis
    using h1 h2 disconnect_broadcasts_offline[OF h1, of ex_state "sock ''b1'' uidB"]
    unfolding m1 m2 by blast
qed

text \<open>
  C2 as stated fails: closing the first of the second user's two connections, which is not
  the last, already broadcasts \<open>user-offline\<close>; closing the other one broadcasts it again,
  so a1 receives two.
\<close>

theorem offline_broadcast_counterexample:
  "conn_count (fst (handle ex_state ''b1'' Disconnect ex_env)) uidB = 1
   \<and> received (snd (handle ex_state ''b1'' Disconnect ex_env)) ''a1'' = [UserOffline uidB]
   \<and> received (snd (handle (fst (handle ex_state ''b1'' Disconnect ex_env)) ''b2''
                      Disconnect ex_env)) ''a1'' = [UserOffline uidB]"
  by (simp add: handler_defs received_def conn_count_def ex_defs Let_def)

section \<open>Authentication\<close>

lemma socketAuth_no_token:
  "\<not> truthy (handshake_token hs) \<Longrightarrow> socketAuth hs ae us = Inl ''Authentication required''"
  by (simp add: socketAuth_def)

lemma socketAuth_jwt_error:
  "truthy (handshake_token hs) \<Longrightarrow> jwt_verify ae (the (handshake_token hs)) = Inl name \<Longrightarrow>
   socketAuth hs ae us = Inl (token_error name)"
  by (simp add: socketAuth_def)

lemma socketAuth_no_userId:
  "truthy (handshake_token hs) \<Longrightarrow> jwt_verify ae (the (handshake_token hs)) = Inr None \<Longrightarrow>
   \<exists>reason. socketAuth hs ae us = Inl reason"
  by (cases "findById_throws ae") (simp_all add: socketAuth_def)

lemma socketAuth_unknown_user:
  "truthy (handshake_token hs) \<Longrightarrow> jwt_verify ae (the (handshake_token hs)) = Inr (Some uid) \<Longrightarrow>
   us uid = None \<Longrightarrow> \<exists>reason. socketAuth hs ae us = Inl reason"
  by (cases "findById_throws ae") (simp_all add: socketAuth_def)

lemma socketAuth_deactivated:
  "truthy (handshake_token hs) \<Longrightarrow> jwt_verify ae (the (handshake_token hs)) = Inr (Some uid) \<Longrightarrow>
   us uid = Some u \<Longrightarrow> \<not> isActive u \<Longrightarrow> \<exists>reason. socketAuth hs ae us = Inl reason"
  by (cases "findById_throws ae") (simp_all add: socketAuth_def)

text \<open>
  C8. A handshake with no token, with a token that \<open>jwt.verify\<close> rejects (invalid or
  expired), with a token of a user that does not exist, or of a deactivated account is
  refused with one of the middleware's denial reasons and the state stays as it was. The
  refused connection, whose id is new, is not among the sockets then or after any later
  inputs that do not connect that id again, so every event sent under that id is dropped
  by \<open>handle\<close> without running a handler.
\<close>

theorem failed_handshake_refused:
  assumes "\<not> truthy (handshake_token hs)
           \<or> (\<exists>name. jwt_verify ae (the (handshake_token hs)) = Inl name)
           \<or> jwt_verify ae (the (handshake_token hs)) = Inr None
           \<or> (\<exists>uid. jwt_verify ae (the (handshake_token hs)) = Inr (Some uid)
                  \<and> users st uid = None)
           \<or> (\<exists>uid u. jwt_verify ae (the (handshake_token hs)) = Inr (Some uid)
                  \<and> users st uid = Some u \<and> \<not> isActive u)"
    and "i \<notin> sid ` set (sockets st)"
    and "\<forall>inp \<in> set ins. \<not> connects i inp"
  shows "(\<exists>reason. connect st i hs ae = (st, Refused reason)
            \<and> reason \<in> {''Authentication required'', ''Token expired'', ''Invalid token'',
                         ''Token verification failed'', ''User not found'',
                         ''Account deactivated''})
         \<and> i \<notin> sid ` set (sockets (run (fst (connect st i hs ae)) ins))
         \<and> handle (run (fst (connect st i hs ae)) ins) i ev e
             = (run (fst (connect st i hs ae)) ins, [])"
proof -
  have "\<exists>reason. socketAuth hs ae (users st) = Inl reason"
  proof (cases "truthy (handshake_token hs)")
    case False
    then show ?thesis using socketAuth_no_token by blast
  next
    case True
    with assms(1) consider
        (jwt) name where "jwt_verify ae (the (handshake_token hs)) = Inl name"
      | (noid) "jwt_verify ae (the (handshake_token hs)) = Inr None"
      | (unknown) uid where "jwt_verify ae (the (handshake_token hs)) = Inr (Some uid)"
          "users st uid = None"
      | (inactive) uid u where "jwt_verify ae (the (handshake_token hs)) = Inr (Some uid)"
          "users st uid = Some u" "\<not> isActive u"
      by blast
    then show ?thesis
    proof cases
      case jwt
      then show ?thesis using socketAuth_jwt_error[OF True] by blast
    next
      case noid
      then show ?thesis using socketAuth_no_userId[OF True] by blast
    next
      case unknown
      then show ?thesis using socketAuth_unknown_user[OF True] by blast
    next
      case inactive
      then show ?thesis using socketAuth_deactivated[OF True] by blast
    qed
  qed
  then obtain reason where r: "socketAuth hs ae (users st) = Inl reason" by blast
  have c: "connect st i hs ae = (st, Refused reason)" using connect_refused[OF r] .
  have n: "i \<notin> sid ` set (sockets (run (fst (connect st i hs ae)) ins))"
    using sids_run[OF assms(3) assms(2)] by (simp add: c)
  have r': "reason \<in> {''Authentication required'', ''Token expired'', ''Invalid token'',
                         ''Token verification failed'', ''User not found'',
                         ''Account deactivated''}"
    using socketAuth_refusal_reason[OF r] .
  have x: "\<exists>reason. connect st i hs ae = (st, Refused reason)
            \<and> reason \<in> {''Authentication required'', ''Token expired'', ''Invalid token'',
                         ''Token verification failed'', ''User not found'',
                         ''Account deactivated''}"
    by (rule exI[of _ reason]) (rule conjI[OF c r'])
  have h: "handle (run (fst (connect st i hs ae)) ins) i ev e
             = (run (fst (connect st i hs ae)) ins, [])"
    using handle_unknown[OF n] .
  show ?thesis by (rule conjI[OF x conjI[OF n h]])
qed

theorem failed_handshake_refused_witness:
  "\<not> truthy (handshake_token no_token)
   \<and> ''z1'' \<notin> sid ` set (sockets ex_state)
   \<and> \<not> connects ''z1'' (Client ''a1'' (SendMessage (Some (hi_to uidB))) ex_env)
   \<and> \<not> connects ''z1'' (Connect ''z2'' (bearer ''tokA'') ex_auth)
   \<and> connect ex_state ''z1'' no_token ex_auth = (ex_state, Refused ''Authentication required'')
   \<and> handle (run (fst (connect ex_state ''z1'' no_token ex_auth))
               [Client ''a1'' (SendMessage (Some (hi_to uidB))) ex_env,
                Connect ''z2'' (bearer ''tokA'') ex_auth]) ''z1'' (SendMessage (Some (hi_to uidB))) ex_env
       = (run (fst (connect ex_state ''z1'' no_token ex_auth))
               [Client ''a1'' (SendMessage (Some (hi_to uidB))) ex_env,
                Connect ''z2'' (bearer ''tokA'') ex_auth], [])"
proof -
  have h1: "\<not> truthy (handshake_token no_token)"
    by (simp add: handshake_token_def no_token_def js_or_def)
  have h2: "''z1'' \<notin> sid ` set (sockets ex_state)" by (simp add: ex_state_def sock_def)
  have h3: "\<forall>inp \<in> set [Client ''a1'' (SendMessage (Some (hi_to uidB))) ex_env,
                     Connect ''z2'' (bearer ''tokA'') ex_auth]. \<not> connects ''z1'' inp"
    by simp
  have c: "connect ex_state ''z1'' no_token ex_auth
             = (ex_state, Refused ''Authentication required'')"
    by (simp add: connect_def socketAuth_def Let_def h1)
  have d: "\<not> truthy (handshake_token no_token)
           \<or> (\<exists>name. jwt_verify ex_auth (the (handshake_token no_token)) = Inl name)
           \<or> jwt_verify ex_auth (the (handshake_token no_token)) = Inr None
           \<or> (\<exists>uid. jwt_verify ex_auth (the (handshake_token no_token)) = Inr (Some uid)
                  \<and> users ex_state uid = None)
           \<or> (\<exists>uid u. jwt_verify ex_auth (the (handshake_token no_token)) = Inr (Some uid)
                  \<and> users ex_state uid = Some u \<and> \<not> isActive u)"
    using h1 by (rule disjI1)
  have r: "handle (run (fst (connect ex_state ''z1'' no_token ex_auth))
               [Client ''a1'' (SendMessage (Some (hi_to uidB))) ex_env,
                Connect ''z2'' (bearer ''tokA'') ex_auth]) ''z1'' (SendMessage (Some (hi_to uidB))) ex_env
       = (run (fst (connect ex_state ''z1'' no_token ex_auth))
               [Client ''a1'' (SendMessage (Some (hi_to uidB))) ex_env,
                Connect ''z2'' (bearer ''tokA'') ex_auth], [])"
    using failed_handshake_refused[OF d h2 h3, THEN conjunct2, THEN conjunct2] .
  have k1: "\<not> connects ''z1'' (Client ''a1'' (SendMessage (Some (hi_to uidB))) ex_env)" by simp
  have k2: "\<not> connects ''z1'' (Connect ''z2'' (bearer ''tokA'') ex_auth)" by simp
  show ?thesis by (rule conjI[OF h1 conjI[OF h2 conjI[OF k1 conjI[OF k2 conjI[OF c r]]]]])
qed

text \<open>The other refusals of the example: expired, invalid, unknown user, deactivated.\<close>

lemma refusals_example:
  "snd (connect ex_state ''z1'' (bearer ''old'') ex_auth) = Refused ''Token expired''"
  "snd (connect ex_state ''z1'' (bearer ''bad'') ex_auth) = Refused ''Invalid token''"
  "snd (connect ex_state ''z1'' (bearer ''tokZ'') ex_auth) = Refused ''User not found''"
  "snd (connect ex_state ''z1'' (bearer ''tokD'') ex_auth) = Refused ''Account deactivated''"
  "snd (connect ex_state ''z1'' (bearer ''tokA'') ex_auth) = Accepted"
  by (simp_all add: connect_def socketAuth_def handshake_token_def js_or_def token_error_def
      Let_def ex_defs)

end
